theory Spec2Isabelle
  imports Complex_Main
begin

section \<open>Data model\<close>

text \<open>
  The node \<^verbatim>\<open>TrimeshCoasterNode.generate\<close> of \<^verbatim>\<open>trimesh_node.py\<close> turns a vector logo
  into two meshes. Coordinates are float64 in the program; they are idealised here as
  \<^typ>\<open>real\<close>, with the one place where float arithmetic leaves the reals (the unguarded
  division of step 5) written out as a separate outcome.

  A mesh is its vertex buffer and its triangle index buffer. The transforms of the program
  act on the vertex buffer; the orientation of the index triples is not read by any
  property below.
\<close>

type_synonym vec3 = "real \<times> real \<times> real"

record mesh =
  vertices :: "vec3 list"
  faces :: "(nat \<times> nat \<times> nat) list"

text \<open>What a mesh file holds: a mesh with finite coordinates, or one whose coordinates
  were produced from an infinite or NaN scale factor.\<close>

datatype geometry = Finite_mesh mesh | NonFinite_mesh

text \<open>The path object returned by \<^verbatim>\<open>trimesh.load_path\<close>, over an abstract type of
  polygons (shapely polygons in the program).\<close>

record 'p path_obj =
  polygons_full :: "'p list"
  polygons_closed :: "'p list"

text \<open>
  The external collaborators of \<^verbatim>\<open>generate\<close>: the vector parser, the file system test,
  shapely's zero-distance buffer and emptiness test, trimesh's polygon extruder (which may
  raise), the output directory of the host and the clock reading \<^verbatim>\<open>time.strftime("%H%M%S")\<close>.
  An exception is carried as its message.
\<close>

record 'p env =
  load_path_svg :: "string \<Rightarrow> string + 'p path_obj"
  path_exists :: "string \<Rightarrow> bool"
  load_path_file :: "string \<Rightarrow> string + 'p path_obj"
  buffer0 :: "'p \<Rightarrow> 'p"
  is_empty :: "'p \<Rightarrow> bool"
  extrude_polygon :: "'p \<Rightarrow> real \<Rightarrow> string + mesh"
  get_output_directory :: string
  strftime_HMS :: string

text \<open>The four error returns of \<^verbatim>\<open>generate\<close>, in source order.\<close>

datatype error =
    NoSource
  | ParseError string
  | NoClosedShapes
  | ExtrusionFailed

text \<open>
  \<^verbatim>\<open>generate\<close> returns a one-element tuple holding a string: an error text or the two
  paths. \<open>Uncaught\<close> is an exception that leaves \<^verbatim>\<open>generate\<close> (only step 2 has a handler).
\<close>

datatype result =
    Failure error
  | Success string string
  | Uncaught string

fun result_string :: "result \<Rightarrow> string" where
  "result_string (Failure NoSource) = ''Error: No valid SVG string or file path provided.''"
| "result_string (Failure (ParseError e)) = ''Error parsing SVG: '' @ e"
| "result_string (Failure NoClosedShapes) = ''Error: No valid closed shapes found in SVG.''"
| "result_string (Failure ExtrusionFailed) = ''Error: Geometry extrusion failed.''"
| "result_string (Success body_path logo_path) = body_path @ '' '' @ [CHR 0x0A] @ '' '' @ logo_path"
| "result_string (Uncaught e) = e"

datatype source = Inline string | File string

text \<open>One run: the value returned, the files written (in order) and the sources that
  were handed to the parser.\<close>

record run =
  outcome :: result
  written :: "(string \<times> geometry) list"
  loaded :: "source list"

section \<open>Step 2: selecting and loading the vector source\<close>

text \<open>
  Python's \<^verbatim>\<open>str.isspace\<close> on the code points below 256 (a \<^typ>\<open>char\<close> stands for one
  code point): tab, line feed, vertical tab, form feed, carriage return, the separators
  0x1C to 0x1F, space, 0x85 and 0xA0.
\<close>

definition isspace :: "char \<Rightarrow> bool" where
  "isspace c = (of_char c \<in> {9, 10, 11, 12, 13, 28, 29, 30, 31, 32, 133, 160 :: nat})"

definition strip :: "string \<Rightarrow> string" where
  "strip s = rev (dropWhile isspace (rev (dropWhile isspace s)))"

text \<open>
  \<^verbatim>\<open>if svg_string and len(svg_string.strip()) > 10: ... elif svg_path and
  os.path.exists(svg_path): ... else: return error\<close>, inside \<^verbatim>\<open>try ... except Exception\<close>.
\<close>

definition load_svg :: "'p env \<Rightarrow> string \<Rightarrow> string \<Rightarrow> (error + 'p path_obj) \<times> source list" where
  "load_svg E svg_path svg_string =
     (if svg_string \<noteq> [] \<and> length (strip svg_string) > 10 then
        (case load_path_svg E svg_string of
           Inl e \<Rightarrow> (Inl (ParseError e), [Inline svg_string])
         | Inr path \<Rightarrow> (Inr path, [Inline svg_string]))
      else if svg_path \<noteq> [] \<and> path_exists E svg_path then
        (case load_path_file E svg_path of
           Inl e \<Rightarrow> (Inl (ParseError e), [File svg_path])
         | Inr path \<Rightarrow> (Inr path, [File svg_path]))
      else (Inl NoSource, []))"

section \<open>Meshes and homogeneous transforms\<close>

text \<open>
  The functions of this section are trimesh and numpy library calls made by
  \<^verbatim>\<open>generate\<close>; their code is not part of the repository. Each is written out from what
  the call computes, which the spec states under Mesh3D, AffineTransform, Aggregator and
  bounding box.
\<close>

abbreviation px :: "vec3 \<Rightarrow> real" where "px v \<equiv> fst v"
abbreviation py :: "vec3 \<Rightarrow> real" where "py v \<equiv> fst (snd v)"
abbreviation pz :: "vec3 \<Rightarrow> real" where "pz v \<equiv> snd (snd v)"

text \<open>Modelled from the spec: the library property \<^verbatim>\<open>mesh.bounds\<close>, the smallest
  axis-aligned box containing the mesh, as (minimum corner, maximum corner); it is
  \<^verbatim>\<open>None\<close> for a mesh without vertices.\<close>

definition bounds :: "mesh \<Rightarrow> (vec3 \<times> vec3) option" where
  "bounds m =
     (if vertices m = [] then None
      else Some ((Min (set (map px (vertices m))), Min (set (map py (vertices m))),
                  Min (set (map pz (vertices m)))),
                 (Max (set (map px (vertices m))), Max (set (map py (vertices m))),
                  Max (set (map pz (vertices m))))))"

text \<open>Modelled from the spec: the library function \<^verbatim>\<open>trimesh.util.concatenate\<close>
  (Aggregator): vertex buffers appended, index buffers re-indexed by the number of vertices
  that come before; no boolean union.\<close>

definition append_mesh :: "mesh \<Rightarrow> mesh \<Rightarrow> mesh" where
  "append_mesh a b =
     \<lparr>vertices = vertices a @ vertices b,
      faces = faces a @ map (\<lambda>(i, j, k). (i + length (vertices a), j + length (vertices a),
                                          k + length (vertices a))) (faces b)\<rparr>"

definition concatenate :: "mesh list \<Rightarrow> mesh" where
  "concatenate ms = foldl append_mesh \<lparr>vertices = [], faces = []\<rparr> ms"

text \<open>A 4x4 matrix, indexed (row, column) from 0 as in numpy.\<close>

type_synonym mat4 = "nat \<times> nat \<Rightarrow> real"

definition eye4 :: mat4 where
  "eye4 = (\<lambda>(i, j). if i = j then 1 else 0)"

definition mat_of_rows :: "real list list \<Rightarrow> mat4" where
  "mat_of_rows rows = (\<lambda>(i, j). (rows ! i) ! j)"

text \<open>Modelled from the spec: the library method \<^verbatim>\<open>apply_transform\<close> (AffineTransform, a
  4x4 homogeneous matrix): each vertex as the column (x, y, z, 1), multiplied from the
  left, first three rows kept. Only the vertex buffer is transformed here.\<close>

definition transform_point :: "mat4 \<Rightarrow> vec3 \<Rightarrow> vec3" where
  "transform_point M v =
     (M (0, 0) * px v + M (0, 1) * py v + M (0, 2) * pz v + M (0, 3),
      M (1, 0) * px v + M (1, 1) * py v + M (1, 2) * pz v + M (1, 3),
      M (2, 0) * px v + M (2, 1) * py v + M (2, 2) * pz v + M (2, 3))"

definition apply_transform :: "mat4 \<Rightarrow> mesh \<Rightarrow> mesh" where
  "apply_transform M m = m\<lparr>vertices := map (transform_point M) (vertices m)\<rparr>"

definition translation_matrix :: "vec3 \<Rightarrow> mat4" where
  "translation_matrix t = eye4((0, 3) := px t, (1, 3) := py t, (2, 3) := pz t)"

definition apply_translation :: "vec3 \<Rightarrow> mesh \<Rightarrow> mesh" where
  "apply_translation t m = apply_transform (translation_matrix t) m"

definition unit_vector :: "vec3 \<Rightarrow> vec3" where
  "unit_vector d =
     (let n = sqrt (px d * px d + py d * py d + pz d * pz d) in (px d / n, py d / n, pz d / n))"

text \<open>Modelled from the spec: the library function
  \<^verbatim>\<open>trimesh.transformations.rotation_matrix(angle, direction)\<close>, the rotation by an angle in
  radians about an axis through the origin: \<open>cos\<close> on the diagonal, plus the outer product
  of the unit direction times \<open>1 - cos\<close>, plus the cross-product matrix of the direction
  times \<open>sin\<close>. \<^verbatim>\<open>np.radians\<close> converts degrees.\<close>

definition rotation_matrix :: "real \<Rightarrow> vec3 \<Rightarrow> mat4" where
  "rotation_matrix angle direction =
     (let sina = sin angle; cosa = cos angle; d = unit_vector direction;
          dx = px d; dy = py d; dz = pz d
      in mat_of_rows
        [[cosa + dx * dx * (1 - cosa), dx * dy * (1 - cosa) - dz * sina,
          dx * dz * (1 - cosa) + dy * sina, 0],
         [dy * dx * (1 - cosa) + dz * sina, cosa + dy * dy * (1 - cosa),
          dy * dz * (1 - cosa) - dx * sina, 0],
         [dz * dx * (1 - cosa) - dy * sina, dz * dy * (1 - cosa) + dx * sina,
          cosa + dz * dz * (1 - cosa), 0],
         [0, 0, 0, 1]])"

definition radians :: "real \<Rightarrow> real" where
  "radians deg = deg * pi / 180"

section \<open>Steps 3 and 4: polygons and extrusion\<close>

text \<open>\<^verbatim>\<open>path_obj.polygons_full if path_obj.polygons_full else path_obj.polygons_closed\<close>\<close>

definition select_polygons :: "'p path_obj \<Rightarrow> 'p list" where
  "select_polygons path =
     (if polygons_full path \<noteq> [] then polygons_full path else polygons_closed path)"

text \<open>The loop of step 4, with the list \<^verbatim>\<open>logo_meshes\<close> as accumulator: a polygon whose
  buffer is empty is passed over, and so is one whose extrusion raises
  (\<^verbatim>\<open>except: pass\<close>).\<close>

fun extrude_loop :: "'p env \<Rightarrow> real \<Rightarrow> 'p list \<Rightarrow> mesh list \<Rightarrow> mesh list" where
  "extrude_loop E logo_depth [] logo_meshes = logo_meshes"
| "extrude_loop E logo_depth (poly # rest) logo_meshes =
     (let clean_poly = buffer0 E poly in
      if \<not> is_empty E clean_poly then
        (case extrude_polygon E clean_poly logo_depth of
           Inr m \<Rightarrow> extrude_loop E logo_depth rest (logo_meshes @ [m])
         | Inl _ \<Rightarrow> extrude_loop E logo_depth rest logo_meshes)
      else extrude_loop E logo_depth rest logo_meshes)"


section \<open>Steps 5 to 7: scale, mirror, centre, place\<close>

text \<open>Division of float64 values: a zero divisor gives an infinity or NaN (numpy warns
  and goes on), which is \<open>None\<close> here; HOL's own \<open>x / 0 = 0\<close> is not what the program
  computes.\<close>

definition np_divide :: "real \<Rightarrow> real \<Rightarrow> real option" where
  "np_divide a b = (if b = 0 then None else Some (a / b))"

text \<open>Step 5. There is no test of \<^verbatim>\<open>current_size\<close> in the program: the two quotients are
  written into the matrix as they come. Reading \<^verbatim>\<open>bounds[1][0]\<close> of a mesh without
  vertices raises (outer \<open>None\<close>).\<close>

definition scale_and_mirror :: "real \<Rightarrow> real \<Rightarrow> bool \<Rightarrow> mesh \<Rightarrow> geometry option" where
  "scale_and_mirror diameter scale flip_horizontal full_logo =
     (case bounds full_logo of
        None \<Rightarrow> None
      | Some (lo, hi) \<Rightarrow>
          (let current_size = max (px hi - px lo) (py hi - py lo);
               target_size = diameter * scale;
               mirror_x = (if flip_horizontal then - 1 else 1)
           in case (np_divide (mirror_x * target_size) current_size,
                    np_divide target_size current_size) of
                (Some fx, Some fy) \<Rightarrow>
                  Some (Finite_mesh (apply_transform
                    (eye4((0, 0) := eye4 (0, 0) * fx, (1, 1) := eye4 (1, 1) * fy)) full_logo))
              | _ \<Rightarrow> Some NonFinite_mesh))"

text \<open>Step 6: translate by minus the centre of the XY bounding box.\<close>

definition center_logo :: "mesh \<Rightarrow> mesh option" where
  "center_logo full_logo =
     (case bounds full_logo of
        None \<Rightarrow> None
      | Some (lo, hi) \<Rightarrow>
          (let center_x = (px lo + px hi) / 2;
               center_y = (py lo + py hi) / 2
           in Some (apply_transform (eye4((0, 3) := - center_x, (1, 3) := - center_y)) full_logo)))"

text \<open>Step 7. \<^verbatim>\<open>INPUT_TYPES\<close> declares the two rotations as \<^verbatim>\<open>INT\<close> (from -360 to 360,
  step 90), but \<^verbatim>\<open>generate\<close> hands whatever number it receives to \<^verbatim>\<open>np.radians\<close>, with no
  conversion and no test other than \<^verbatim>\<open>!= 0\<close>; the angle is therefore any real number of
  degrees here.\<close>

definition top_logo :: "real \<Rightarrow> real \<Rightarrow> real \<Rightarrow> mesh \<Rightarrow> mesh" where
  "top_logo thickness logo_depth top_rotate full_logo =
     (let top = (if top_rotate \<noteq> 0
                 then apply_transform (rotation_matrix (radians top_rotate) (0, 0, 1)) full_logo
                 else full_logo);
          top_z = (thickness / 2) - logo_depth
      in apply_translation (0, 0, top_z) top)"

definition bottom_logo :: "real \<Rightarrow> real \<Rightarrow> real \<Rightarrow> mesh \<Rightarrow> mesh" where
  "bottom_logo thickness logo_depth bottom_rotate full_logo =
     (let bot = (if bottom_rotate \<noteq> 0
                 then apply_transform (rotation_matrix (radians bottom_rotate) (0, 0, 1)) full_logo
                 else full_logo);
          bot' = apply_transform (rotation_matrix pi (1, 0, 0)) bot;
          bot_z = (- thickness / 2) + logo_depth
      in apply_translation (0, 0, bot_z) bot')"

text \<open>Steps 5 and 6 together: the centred logo from which both instances are copied. A
  non-finite scale factor makes every later coordinate non-finite.\<close>

definition centered_logo :: "real \<Rightarrow> real \<Rightarrow> bool \<Rightarrow> mesh \<Rightarrow> geometry option" where
  "centered_logo diameter scale flip_horizontal full_logo =
     (case scale_and_mirror diameter scale flip_horizontal full_logo of
        None \<Rightarrow> None
      | Some NonFinite_mesh \<Rightarrow> Some NonFinite_mesh
      | Some (Finite_mesh scaled) \<Rightarrow> map_option Finite_mesh (center_logo scaled))"

text \<open>Steps 5 to 7 on the combined logo mesh, ending in the mesh that is exported:
  \<^verbatim>\<open>concatenate([top, bot])\<close>.\<close>

definition place_logos ::
  "real \<Rightarrow> real \<Rightarrow> real \<Rightarrow> real \<Rightarrow> bool \<Rightarrow> real \<Rightarrow> real \<Rightarrow> mesh \<Rightarrow> geometry option" where
  "place_logos diameter thickness logo_depth scale flip_horizontal top_rotate bottom_rotate full_logo =
     (case centered_logo diameter scale flip_horizontal full_logo of
        None \<Rightarrow> None
      | Some NonFinite_mesh \<Rightarrow> Some NonFinite_mesh
      | Some (Finite_mesh centered) \<Rightarrow>
          Some (Finite_mesh (concatenate
            [top_logo thickness logo_depth top_rotate centered,
             bottom_logo thickness logo_depth bottom_rotate centered])))"

section \<open>Step 1: the base\<close>

text \<open>
  Modelled from the spec: \<^verbatim>\<open>trimesh.creation.cylinder\<close> is a library primitive whose code
  is not part of the repository. The spec (BaseBuilder) describes its result as a right
  circular cylinder of the given radius and height, centred at the origin with
  z from \<open>- height / 2\<close> to \<open>height / 2\<close>, approximated with the given number of circular
  segments, capped top and bottom. The mesh below is that solid: the two cap centres, a
  ring of \<open>sections\<close> points on each cap, a triangle fan on each cap and two triangles for
  each side segment.
\<close>

definition ring :: "real \<Rightarrow> real \<Rightarrow> nat \<Rightarrow> vec3 list" where
  "ring radius z sections =
     map (\<lambda>k. (radius * cos (2 * pi * real k / real sections),
               radius * sin (2 * pi * real k / real sections), z)) [0..<sections]"

definition cap_faces :: "nat \<Rightarrow> nat \<Rightarrow> nat \<Rightarrow> (nat \<times> nat \<times> nat) list" where
  "cap_faces centre first sections =
     map (\<lambda>k. (centre, first + k, first + (k + 1) mod sections)) [0..<sections]"

definition side_faces :: "nat \<Rightarrow> (nat \<times> nat \<times> nat) list" where
  "side_faces sections =
     concat (map (\<lambda>k. [(2 + k, 2 + (k + 1) mod sections, 2 + sections + k),
                        (2 + (k + 1) mod sections, 2 + sections + (k + 1) mod sections,
                         2 + sections + k)]) [0..<sections])"

definition cylinder :: "real \<Rightarrow> real \<Rightarrow> nat \<Rightarrow> mesh" where
  "cylinder radius height sections =
     \<lparr>vertices = [(0, 0, - height / 2), (0, 0, height / 2)]
                 @ ring radius (- height / 2) sections @ ring radius (height / 2) sections,
      faces = cap_faces 0 2 sections @ cap_faces 1 (2 + sections) sections
              @ side_faces sections\<rparr>"

text \<open>\<^verbatim>\<open>base = trimesh.creation.cylinder(radius=diameter/2, height=thickness, sections=120)\<close>\<close>

definition base_cylinder :: "real \<Rightarrow> real \<Rightarrow> mesh" where
  "base_cylinder diameter thickness = cylinder (diameter / 2) thickness 120"

section \<open>Step 8 and the whole of generate\<close>

text \<open>\<^verbatim>\<open>os.path.join\<close> of a directory and one component (POSIX).\<close>

definition path_join :: "string \<Rightarrow> string \<Rightarrow> string" where
  "path_join a b =
     (if b \<noteq> [] \<and> hd b = CHR ''/'' then b
      else if a = [] \<or> last a = CHR ''/'' then a @ b
      else a @ ''/'' @ b)"

text \<open>The only place where files are written: the base first, then the merged logos.\<close>

definition export_meshes ::
  "'p env \<Rightarrow> string \<Rightarrow> mesh \<Rightarrow> geometry \<Rightarrow> result \<times> (string \<times> geometry) list" where
  "export_meshes E output_name base logos =
     (let timestamp = strftime_HMS E;
          unique_name = output_name @ ''_'' @ timestamp;
          out_dir = get_output_directory E;
          body_path = path_join out_dir (unique_name @ ''_Body.stl'');
          logo_path = path_join out_dir (unique_name @ ''_Logos.stl'')
      in (Success body_path logo_path, [(body_path, Finite_mesh base), (logo_path, logos)]))"

text \<open>
  \<^verbatim>\<open>generate\<close>, step by step as in the program: the base is built first and written
  last; each of the four error returns ends the run before step 8; an exception after
  step 2 is not caught. The numeric parameters are taken as the function receives them,
  without the ranges of \<^verbatim>\<open>INPUT_TYPES\<close>.
\<close>

definition generate ::
  "'p env \<Rightarrow> string \<Rightarrow> real \<Rightarrow> real \<Rightarrow> real \<Rightarrow> real \<Rightarrow> bool \<Rightarrow> real \<Rightarrow> real \<Rightarrow> string \<Rightarrow> string \<Rightarrow> run" where
  "generate E output_name diameter thickness logo_depth scale flip_horizontal top_rotate
            bottom_rotate svg_path svg_string =
     (let base = base_cylinder diameter thickness in
      case load_svg E svg_path svg_string of
        (Inl err, srcs) \<Rightarrow> \<lparr>outcome = Failure err, written = [], loaded = srcs\<rparr>
      | (Inr path, srcs) \<Rightarrow>
          (let poly_list = select_polygons path in
           if poly_list = [] then
             \<lparr>outcome = Failure NoClosedShapes, written = [], loaded = srcs\<rparr>
           else
             (let logo_meshes = extrude_loop E logo_depth poly_list [] in
              if logo_meshes = [] then
                \<lparr>outcome = Failure ExtrusionFailed, written = [], loaded = srcs\<rparr>
              else
                (case place_logos diameter thickness logo_depth scale flip_horizontal
                        top_rotate bottom_rotate (concatenate logo_meshes) of
                   None \<Rightarrow>
                     \<lparr>outcome = Uncaught ''TypeError'', written = [], loaded = srcs\<rparr>
                 | Some logos \<Rightarrow>
                     (let (res, files) = export_meshes E output_name base logos
                      in \<lparr>outcome = res, written = files, loaded = srcs\<rparr>)))))"

section \<open>Reading meshes and inputs\<close>

text \<open>The ranges that \<^verbatim>\<open>INPUT_TYPES\<close> declares for the four FLOAT inputs.\<close>

definition in_range :: "real \<Rightarrow> real \<Rightarrow> real \<Rightarrow> real \<Rightarrow> bool" where
  "in_range diameter thickness logo_depth scale =
     (50 \<le> diameter \<and> diameter \<le> 200 \<and> 2 \<le> thickness \<and> thickness \<le> 20 \<and>
      1 / 5 \<le> logo_depth \<and> logo_depth \<le> 5 \<and> 1 / 10 \<le> scale \<and> scale \<le> 1)"

text \<open>Width and height of the XY bounding box, and the Z interval of the bounding box.\<close>

definition xy_extents :: "mesh \<Rightarrow> (real \<times> real) option" where
  "xy_extents m = map_option (\<lambda>(lo, hi). (px hi - px lo, py hi - py lo)) (bounds m)"

definition z_range :: "mesh \<Rightarrow> (real \<times> real) option" where
  "z_range m = map_option (\<lambda>(lo, hi). (pz lo, pz hi)) (bounds m)"

text \<open>The placement as the spec words it (FaceInstancer): a rotation about the Z axis
  through the origin by an angle in degrees, a half turn about the X axis, a shift along
  Z, and the mirror image in X.\<close>

definition rotate_z_deg :: "real \<Rightarrow> vec3 \<Rightarrow> vec3" where
  "rotate_z_deg deg v =
     (cos (deg * pi / 180) * px v - sin (deg * pi / 180) * py v,
      sin (deg * pi / 180) * px v + cos (deg * pi / 180) * py v, pz v)"

definition flip_about_x :: "vec3 \<Rightarrow> vec3" where
  "flip_about_x v = (px v, - py v, - pz v)"

definition shift_z :: "real \<Rightarrow> vec3 \<Rightarrow> vec3" where
  "shift_z c v = (px v, py v, pz v + c)"

definition mirror_image_x :: "vec3 \<Rightarrow> vec3" where
  "mirror_image_x v = (- px v, py v, pz v)"

section \<open>A small environment for concrete runs\<close>

text \<open>Polygons are numbered: number 0 has an empty buffer, the extrusion of number 1
  raises, every other one extrudes to a box of 4 by 2.\<close>

definition demo_box :: "real \<Rightarrow> real \<Rightarrow> real \<Rightarrow> mesh" where
  "demo_box w h d =
     \<lparr>vertices = [(0, 0, 0), (w, 0, 0), (w, h, 0), (0, h, 0),
                  (0, 0, d), (w, 0, d), (w, h, d), (0, h, d)],
      faces = [(0, 2, 1), (0, 3, 2), (4, 5, 6), (4, 6, 7), (0, 1, 5), (0, 5, 4),
               (1, 2, 6), (1, 6, 5), (2, 3, 7), (2, 7, 6), (3, 0, 4), (3, 4, 7)]\<rparr>"

text \<open>The same box after steps 5 and 6 with diameter 100, scale 0.85 and mirroring.\<close>

definition demo_centered_box :: "real \<Rightarrow> mesh" where
  "demo_centered_box d =
     \<lparr>vertices = [(85 / 2, - 85 / 4, 0), (- 85 / 2, - 85 / 4, 0), (- 85 / 2, 85 / 4, 0),
                  (85 / 2, 85 / 4, 0), (85 / 2, - 85 / 4, d), (- 85 / 2, - 85 / 4, d),
                  (- 85 / 2, 85 / 4, d), (85 / 2, 85 / 4, d)],
      faces = faces (demo_box 4 2 d)\<rparr>"

definition demo_env :: "nat env" where
  "demo_env =
     \<lparr>load_path_svg = (\<lambda>s. if s = ''<svg>broken''
                            then Inl ''not well-formed''
                            else if s = ''<svg>unusable</svg>''
                            then Inr \<lparr>polygons_full = [], polygons_closed = [0, 1]\<rparr>
                            else Inr \<lparr>polygons_full = [0, 1, 2], polygons_closed = [0, 1, 2]\<rparr>),
      path_exists = (\<lambda>p. p = ''logo.svg''),
      load_path_file = (\<lambda>p. Inr \<lparr>polygons_full = [], polygons_closed = [2]\<rparr>),
      buffer0 = (\<lambda>p. p),
      is_empty = (\<lambda>p. p = 0),
      extrude_polygon = (\<lambda>p h. if p = 1 then Inl ''triangulation failed''
                                else Inr (demo_box 4 2 h)),
      get_output_directory = ''output'',
      strftime_HMS = ''143005''\<rparr>"

section \<open>Source selection\<close>








section \<open>Extrusion loop, failure returns and export\<close>






lemma generate_after_load:
  assumes "load_svg E svg_path svg_string = (Inr path, srcs)"
  shows "generate E output_name diameter thickness logo_depth scale flip_horizontal top_rotate
            bottom_rotate svg_path svg_string =
     (if select_polygons path = [] then
        \<lparr>outcome = Failure NoClosedShapes, written = [], loaded = srcs\<rparr>
      else if extrude_loop E logo_depth (select_polygons path) [] = [] then
        \<lparr>outcome = Failure ExtrusionFailed, written = [], loaded = srcs\<rparr>
      else
        (case place_logos diameter thickness logo_depth scale flip_horizontal top_rotate
                bottom_rotate (concatenate (extrude_loop E logo_depth (select_polygons path) [])) of
           None \<Rightarrow> \<lparr>outcome = Uncaught ''TypeError'', written = [], loaded = srcs\<rparr>
         | Some logos \<Rightarrow>
             \<lparr>outcome = fst (export_meshes E output_name (base_cylinder diameter thickness) logos),
              written = snd (export_meshes E output_name (base_cylinder diameter thickness) logos),
              loaded = srcs\<rparr>))"
  using assms by (simp add: generate_def Let_def split: option.splits prod.splits)

lemma generate_load_failed:
  assumes "load_svg E svg_path svg_string = (Inl err, srcs)"
  shows "generate E output_name diameter thickness logo_depth scale flip_horizontal top_rotate
            bottom_rotate svg_path svg_string = \<lparr>outcome = Failure err, written = [], loaded = srcs\<rparr>"
  using assms by (simp add: generate_def)

lemma export_meshes_shape:
  "\<exists>body logo. export_meshes E output_name base logos =
      (Success body logo, [(body, Finite_mesh base), (logo, logos)])"
  by (simp add: export_meshes_def Let_def)


text \<open>
  Claim C5. A run that returns a failure writes no file. Files exist only after the
  export step: whenever something was written, the run is a success that wrote exactly
  the base file and the logo file, in that order.
\<close>

theorem no_files_before_export:
  "(\<forall>e. outcome (generate E output_name diameter thickness logo_depth scale flip_horizontal
                  top_rotate bottom_rotate svg_path svg_string) = Failure e
        \<longrightarrow> written (generate E output_name diameter thickness logo_depth scale flip_horizontal
                  top_rotate bottom_rotate svg_path svg_string) = [])
   \<and> (written (generate E output_name diameter thickness logo_depth scale flip_horizontal
                  top_rotate bottom_rotate svg_path svg_string) \<noteq> [] \<longrightarrow>
        (\<exists>body logo logos.
           generate E output_name diameter thickness logo_depth scale flip_horizontal
                  top_rotate bottom_rotate svg_path svg_string
           = \<lparr>outcome = Success body logo,
              written = [(body, Finite_mesh (base_cylinder diameter thickness)), (logo, logos)],
              loaded = snd (load_svg E svg_path svg_string)\<rparr>))"
proof (cases "load_svg E svg_path svg_string")
  case (Pair r srcs)
  show ?thesis
  proof (cases r)
    case (Inl err)
    with Pair show ?thesis by (simp add: generate_load_failed)
  next
    case (Inr path)
    with Pair have l: "load_svg E svg_path svg_string = (Inr path, srcs)" by simp
    show ?thesis
      by (simp add: generate_after_load [OF l] l export_meshes_def Let_def split: option.splits)
  qed
qed


lemma bounds_eq_None [simp]: "bounds m = None \<longleftrightarrow> vertices m = []"
  by (simp add: bounds_def)

lemma xy_extents_Some:
  "xy_extents m = Some (w, h) \<longleftrightarrow>
     vertices m \<noteq> [] \<and> w = Max (set (map px (vertices m))) - Min (set (map px (vertices m)))
       \<and> h = Max (set (map py (vertices m))) - Min (set (map py (vertices m)))"
  by (auto simp: xy_extents_def bounds_def)

lemma scale_and_mirror_cases:
  assumes "xy_extents full_logo = Some (w, h)"
  shows "scale_and_mirror diameter scale flip_horizontal full_logo =
     (if max w h = 0 then Some NonFinite_mesh
      else Some (Finite_mesh (apply_transform
             (eye4((0, 0) := eye4 (0, 0) * ((if flip_horizontal then - 1 else 1) * (diameter * scale) / max w h),
                   (1, 1) := eye4 (1, 1) * (diameter * scale / max w h))) full_logo)))"
  using assms
  by (simp add: xy_extents_Some scale_and_mirror_def bounds_def np_divide_def Let_def)

lemma center_logo_Some:
  "vertices m \<noteq> [] \<Longrightarrow> \<exists>c. center_logo m = Some c \<and> length (vertices c) = length (vertices m)"
  by (simp add: center_logo_def bounds_def Let_def apply_transform_def)

lemma centered_logo_cases:
  assumes "xy_extents full_logo = Some (w, h)"
  shows "(max w h = 0 \<longrightarrow> centered_logo diameter scale flip_horizontal full_logo = Some NonFinite_mesh)
       \<and> (max w h \<noteq> 0 \<longrightarrow> (\<exists>c. centered_logo diameter scale flip_horizontal full_logo = Some (Finite_mesh c)))"
proof -
  from assms have ne: "vertices full_logo \<noteq> []" by (simp add: xy_extents_Some)
  show ?thesis
  proof (cases "max w h = 0")
    case True
    then show ?thesis
      by (simp add: centered_logo_def scale_and_mirror_cases [OF assms])
  next
    case False
    let ?scaled = "apply_transform
             (eye4((0, 0) := eye4 (0, 0) * ((if flip_horizontal then - 1 else 1) * (diameter * scale) / max w h),
                   (1, 1) := eye4 (1, 1) * (diameter * scale / max w h))) full_logo"
    from ne have "vertices ?scaled \<noteq> []" by (simp add: apply_transform_def)
    from center_logo_Some [OF this] obtain c where "center_logo ?scaled = Some c" by blast
    with False show ?thesis
      by (simp add: centered_logo_def scale_and_mirror_cases [OF assms])
  qed
qed

lemma place_logos_cases:
  assumes "xy_extents full_logo = Some (w, h)"
  shows "(max w h = 0 \<longrightarrow> place_logos diameter thickness logo_depth scale flip_horizontal
              top_rotate bottom_rotate full_logo = Some NonFinite_mesh)
       \<and> (max w h \<noteq> 0 \<longrightarrow> (\<exists>m. place_logos diameter thickness logo_depth scale flip_horizontal
              top_rotate bottom_rotate full_logo = Some (Finite_mesh m)))"
  using centered_logo_cases [OF assms, of diameter scale flip_horizontal]
  by (auto simp: place_logos_def)

lemma concatenate_single: "concatenate [m] = m"
  by (simp add: concatenate_def append_mesh_def)

lemma demo_load_shapes:
  "load_svg demo_env [] ''<svg>three shapes</svg>''
   = (Inr \<lparr>polygons_full = [0, 1, 2], polygons_closed = [0, 1, 2]\<rparr>,
      [Inline ''<svg>three shapes</svg>''])"
  by (simp add: load_svg_def strip_def isspace_def demo_env_def)


lemma demo_load_missing:
  "load_svg demo_env ''missing.svg'' [] = (Inl NoSource, [])"
  by (simp add: load_svg_def demo_env_def)



lemma demo_extrude_shapes: "extrude_loop demo_env d [0, 1, 2] [] = [demo_box 4 2 d]"
  by (simp add: demo_env_def)

lemma demo_select_shapes:
  "select_polygons \<lparr>polygons_full = [0, 1, 2], polygons_closed = [0, 1, 2 :: nat]\<rparr> = [0, 1, 2]"
  by (simp add: select_polygons_def)

lemma demo_box_extents: "xy_extents (demo_box 4 2 d) = Some (4, 2)"
  by (simp add: xy_extents_def bounds_def demo_box_def)


theorem no_files_before_export_witness:
  "outcome (generate demo_env ''Coaster'' 100 5 (3/5) (17/20) True 0 0 ''missing.svg'' [])
     = Failure NoSource
   \<and> written (generate demo_env ''Coaster'' 100 5 (3/5) (17/20) True 0 0 ''missing.svg'' []) = []
   \<and> written (generate demo_env ''Coaster'' 100 5 (3/5) (17/20) True 0 0 []
        ''<svg>three shapes</svg>'') \<noteq> []
   \<and> (\<exists>body logo logos.
         generate demo_env ''Coaster'' 100 5 (3/5) (17/20) True 0 0 [] ''<svg>three shapes</svg>''
         = \<lparr>outcome = Success body logo,
            written = [(body, Finite_mesh (base_cylinder 100 5)), (logo, logos)],
            loaded = snd (load_svg demo_env [] ''<svg>three shapes</svg>'')\<rparr>)"
proof -
  have f: "outcome (generate demo_env ''Coaster'' 100 5 (3/5) (17/20) True 0 0 ''missing.svg'' [])
     = Failure NoSource"
    by (simp add: generate_load_failed [OF demo_load_missing])
  have w0: "written (generate demo_env ''Coaster'' 100 5 (3/5) (17/20) True 0 0 ''missing.svg'' []) = []"
    using no_files_before_export [of demo_env "''Coaster''" 100 5 "3/5" "17/20" True 0 0
        "''missing.svg''" "[]"] f
    by blast
  obtain m where pl: "place_logos 100 5 (3/5) (17/20) True 0 0 (demo_box 4 2 (3/5)) = Some (Finite_mesh m)"
    using place_logos_cases [OF demo_box_extents [of "3/5"], of 100 5 "3/5" "17/20" True 0 0] by auto
  have w1: "written (generate demo_env ''Coaster'' 100 5 (3/5) (17/20) True 0 0 []
        ''<svg>three shapes</svg>'') \<noteq> []"
    by (simp only: generate_after_load [OF demo_load_shapes] demo_select_shapes
        demo_extrude_shapes concatenate_single pl)
       (simp add: export_meshes_def Let_def)
  have s: "\<exists>body logo logos.
         generate demo_env ''Coaster'' 100 5 (3/5) (17/20) True 0 0 [] ''<svg>three shapes</svg>''
         = \<lparr>outcome = Success body logo,
            written = [(body, Finite_mesh (base_cylinder 100 5)), (logo, logos)],
            loaded = snd (load_svg demo_env [] ''<svg>three shapes</svg>'')\<rparr>"
    using no_files_before_export [of demo_env "''Coaster''" 100 5 "3/5" "17/20" True 0 0
        "[]" "''<svg>three shapes</svg>''"] w1
    by blast
  from f w0 w1 s show ?thesis by blast
qed

section \<open>Transforms, bounding boxes and flush placement\<close>

lemma transform_rot_z:
  "transform_point (rotation_matrix a (0, 0, 1)) v
   = (cos a * px v - sin a * py v, sin a * px v + cos a * py v, pz v)"
  by (simp add: transform_point_def rotation_matrix_def unit_vector_def mat_of_rows_def Let_def)

lemma transform_rot_x_pi:
  "transform_point (rotation_matrix pi (1, 0, 0)) v = (px v, - py v, - pz v)"
  by (simp add: transform_point_def rotation_matrix_def unit_vector_def mat_of_rows_def Let_def)

lemma transform_translation:
  "transform_point (translation_matrix t) v = (px v + px t, py v + py t, pz v + pz t)"
  by (simp add: transform_point_def translation_matrix_def eye4_def)

lemma transform_scale:
  "transform_point (eye4((0, 0) := eye4 (0, 0) * fx, (1, 1) := eye4 (1, 1) * fy))
   = (\<lambda>v. (fx * px v, fy * py v, pz v))"
  by (rule ext) (simp add: transform_point_def eye4_def)

lemma transform_shift_xy:
  "transform_point (eye4((0, 3) := a, (1, 3) := b)) = (\<lambda>v. (px v + a, py v + b, pz v))"
  by (rule ext) (simp add: transform_point_def eye4_def)

lemma vertices_apply_transform:
  "vertices (apply_transform M m) = map (transform_point M) (vertices m)"
  by (simp add: apply_transform_def)

lemma faces_apply_transform: "faces (apply_transform M m) = faces m"
  by (simp add: apply_transform_def)

lemma Min_image_neg:
  fixes f :: "'a \<Rightarrow> real"
  assumes "finite S" "S \<noteq> {}"
  shows "Min ((\<lambda>v. - f v) ` S) = - Max (f ` S)"
proof (rule Min_eqI)
  show "finite ((\<lambda>v. - f v) ` S)" using assms by simp
  fix y assume "y \<in> (\<lambda>v. - f v) ` S"
  then obtain v where "v \<in> S" "y = - f v" by auto
  then have "f v \<le> Max (f ` S)" using assms by (intro Max_ge) auto
  with \<open>y = - f v\<close> show "- Max (f ` S) \<le> y" by simp
next
  have "Max (f ` S) \<in> f ` S" using assms by (intro Max_in) auto
  then show "- Max (f ` S) \<in> (\<lambda>v. - f v) ` S" by auto
qed

lemma Max_image_neg:
  fixes f :: "'a \<Rightarrow> real"
  assumes "finite S" "S \<noteq> {}"
  shows "Max ((\<lambda>v. - f v) ` S) = - Min (f ` S)"
proof (rule Max_eqI)
  show "finite ((\<lambda>v. - f v) ` S)" using assms by simp
  fix y assume "y \<in> (\<lambda>v. - f v) ` S"
  then obtain v where "v \<in> S" "y = - f v" by auto
  then have "Min (f ` S) \<le> f v" using assms by (intro Min_le) auto
  with \<open>y = - f v\<close> show "y \<le> - Min (f ` S)" by simp
next
  have "Min (f ` S) \<in> f ` S" using assms by (intro Min_in) auto
  then show "- Min (f ` S) \<in> (\<lambda>v. - f v) ` S" by auto
qed

lemma Min_image_scale:
  fixes f :: "'a \<Rightarrow> real"
  assumes "finite S" "S \<noteq> {}" "0 \<le> c"
  shows "Min ((\<lambda>v. c * f v) ` S) = c * Min (f ` S)"
proof (rule Min_eqI)
  show "finite ((\<lambda>v. c * f v) ` S)" using assms by simp
  fix y assume "y \<in> (\<lambda>v. c * f v) ` S"
  then obtain v where "v \<in> S" "y = c * f v" by auto
  then have "Min (f ` S) \<le> f v" using assms by (intro Min_le) auto
  with \<open>y = c * f v\<close> assms(3) show "c * Min (f ` S) \<le> y"
    by (simp add: mult_left_mono)
next
  have "Min (f ` S) \<in> f ` S" using assms by (intro Min_in) auto
  then show "c * Min (f ` S) \<in> (\<lambda>v. c * f v) ` S" by auto
qed

lemma Max_image_scale:
  fixes f :: "'a \<Rightarrow> real"
  assumes "finite S" "S \<noteq> {}" "0 \<le> c"
  shows "Max ((\<lambda>v. c * f v) ` S) = c * Max (f ` S)"
proof (rule Max_eqI)
  show "finite ((\<lambda>v. c * f v) ` S)" using assms by simp
  fix y assume "y \<in> (\<lambda>v. c * f v) ` S"
  then obtain v where "v \<in> S" "y = c * f v" by auto
  then have "f v \<le> Max (f ` S)" using assms by (intro Max_ge) auto
  with \<open>y = c * f v\<close> assms(3) show "y \<le> c * Max (f ` S)"
    by (simp add: mult_left_mono)
next
  have "Max (f ` S) \<in> f ` S" using assms by (intro Max_in) auto
  then show "c * Max (f ` S) \<in> (\<lambda>v. c * f v) ` S" by auto
qed

text \<open>The coordinate lists of a mesh, and how the bounding box reads them.\<close>

lemma bounds_Some:
  "bounds m = Some (lo, hi) \<longleftrightarrow>
     vertices m \<noteq> []
     \<and> lo = (Min (px ` set (vertices m)), Min (py ` set (vertices m)), Min (pz ` set (vertices m)))
     \<and> hi = (Max (px ` set (vertices m)), Max (py ` set (vertices m)), Max (pz ` set (vertices m)))"
  by (auto simp: bounds_def)

lemma z_range_Some:
  "z_range m = Some (a, b) \<longleftrightarrow>
     vertices m \<noteq> [] \<and> a = Min (pz ` set (vertices m)) \<and> b = Max (pz ` set (vertices m))"
  by (auto simp: z_range_def bounds_def)

lemma coords_image:
  assumes "vertices m' = map g (vertices m)"
  shows "px ` set (vertices m') = (\<lambda>v. px (g v)) ` set (vertices m)"
    and "py ` set (vertices m') = (\<lambda>v. py (g v)) ` set (vertices m)"
    and "pz ` set (vertices m') = (\<lambda>v. pz (g v)) ` set (vertices m)"
  using assms by (auto simp: image_image)

lemma vertices_top_logo:
  "vertices (top_logo t d r m)
   = map (\<lambda>v. (cos (radians r) * px v - sin (radians r) * py v,
                sin (radians r) * px v + cos (radians r) * py v,
                pz v + (t / 2 - d))) (vertices m)"
  by (simp add: top_logo_def apply_translation_def vertices_apply_transform transform_rot_z
      transform_translation Let_def comp_def radians_def)

lemma vertices_bottom_logo:
  "vertices (bottom_logo t d r m)
   = map (\<lambda>v. (cos (radians r) * px v - sin (radians r) * py v,
                - (sin (radians r) * px v + cos (radians r) * py v),
                - pz v + (- t / 2 + d))) (vertices m)"
  by (simp add: bottom_logo_def apply_translation_def vertices_apply_transform transform_rot_z
      transform_rot_x_pi transform_translation Let_def comp_def radians_def)

lemma z_range_top_logo:
  assumes "z_range m = Some (a, b)"
  shows "z_range (top_logo t d r m) = Some (a + (t / 2 - d), b + (t / 2 - d))"
proof -
  from assms have ne: "vertices m \<noteq> []"
    and a: "a = Min (pz ` set (vertices m))" and b: "b = Max (pz ` set (vertices m))"
    by (simp_all add: z_range_Some)
  have fin: "finite (set (vertices m))" "set (vertices m) \<noteq> {}" using ne by simp_all
  have ne': "vertices (top_logo t d r m) \<noteq> []" using ne by (simp add: vertices_top_logo)
  have img: "pz ` set (vertices (top_logo t d r m)) = (\<lambda>v. pz v + (t / 2 - d)) ` set (vertices m)"
    using coords_image(3) [OF vertices_top_logo [of t d r m]] by simp
  have "Min (pz ` set (vertices (top_logo t d r m))) = a + (t / 2 - d)"
    unfolding img a by (rule Min_add_commute [OF fin])
  moreover have "Max (pz ` set (vertices (top_logo t d r m))) = b + (t / 2 - d)"
    unfolding img b by (rule Max_add_commute [OF fin])
  ultimately show ?thesis using ne' by (simp add: z_range_Some)
qed

lemma z_range_bottom_logo:
  assumes "z_range m = Some (a, b)"
  shows "z_range (bottom_logo t d r m) = Some (- b + (- t / 2 + d), - a + (- t / 2 + d))"
proof -
  from assms have ne: "vertices m \<noteq> []"
    and a: "a = Min (pz ` set (vertices m))" and b: "b = Max (pz ` set (vertices m))"
    by (simp_all add: z_range_Some)
  have fin: "finite (set (vertices m))" "set (vertices m) \<noteq> {}" using ne by simp_all
  have ne': "vertices (bottom_logo t d r m) \<noteq> []" using ne by (simp add: vertices_bottom_logo)
  have img: "pz ` set (vertices (bottom_logo t d r m))
      = (\<lambda>v. - pz v + (- t / 2 + d)) ` set (vertices m)"
    using coords_image(3) [OF vertices_bottom_logo [of t d r m]] by simp
  have "Min (pz ` set (vertices (bottom_logo t d r m))) = - b + (- t / 2 + d)"
    unfolding img b
    using Min_add_commute [OF fin, of "\<lambda>v. - pz v" "- t / 2 + d"] Min_image_neg [OF fin, of pz]
    by simp
  moreover have "Max (pz ` set (vertices (bottom_logo t d r m))) = - a + (- t / 2 + d)"
    unfolding img a
    using Max_add_commute [OF fin, of "\<lambda>v. - pz v" "- t / 2 + d"] Max_image_neg [OF fin, of pz]
    by simp
  ultimately show ?thesis using ne' by (simp add: z_range_Some)
qed


lemma z_range_cong:
  assumes "map pz (vertices m') = map pz (vertices m)"
  shows "z_range m' = z_range m"
proof -
  have "pz ` set (vertices m') = pz ` set (vertices m)"
    using arg_cong [OF assms, of set] by simp
  moreover have "vertices m' = [] \<longleftrightarrow> vertices m = []"
    using arg_cong [OF assms, of length] by (cases "vertices m'"; cases "vertices m") simp_all
  ultimately show ?thesis by (simp add: z_range_def bounds_def)
qed

lemma scale_and_mirror_Finite:
  assumes "scale_and_mirror diameter scale flip_horizontal full_logo = Some (Finite_mesh scaled)"
  shows "\<exists>w h. xy_extents full_logo = Some (w, h) \<and> max w h \<noteq> 0
          \<and> vertices scaled
              = map (\<lambda>v. ((if flip_horizontal then - 1 else 1) * (diameter * scale) / max w h * px v,
                           diameter * scale / max w h * py v, pz v)) (vertices full_logo)"
proof -
  from assms have "bounds full_logo \<noteq> None"
    by (cases "bounds full_logo") (simp_all add: scale_and_mirror_def)
  then have "\<exists>w h. xy_extents full_logo = Some (w, h)"
    by (cases "bounds full_logo") (auto simp: xy_extents_def simp del: bounds_eq_None)
  then obtain w h where ex: "xy_extents full_logo = Some (w, h)" by blast
  from assms scale_and_mirror_cases [OF ex, of diameter scale flip_horizontal]
  have nz: "max w h \<noteq> 0" by (auto split: if_splits)
  with assms scale_and_mirror_cases [OF ex, of diameter scale flip_horizontal]
  have "scaled = apply_transform
             (eye4((0, 0) := eye4 (0, 0) * ((if flip_horizontal then - 1 else 1) * (diameter * scale) / max w h),
                   (1, 1) := eye4 (1, 1) * (diameter * scale / max w h))) full_logo"
    by simp
  then have "vertices scaled
              = map (\<lambda>v. ((if flip_horizontal then - 1 else 1) * (diameter * scale) / max w h * px v,
                           diameter * scale / max w h * py v, pz v)) (vertices full_logo)"
    by (simp only: vertices_apply_transform transform_scale)
  with ex nz show ?thesis by blast
qed

lemma center_logo_vertices:
  assumes "center_logo m = Some c"
  shows "vertices m \<noteq> []"
    and "vertices c
         = map (\<lambda>v. (px v + - ((Min (px ` set (vertices m)) + Max (px ` set (vertices m))) / 2),
                      py v + - ((Min (py ` set (vertices m)) + Max (py ` set (vertices m))) / 2),
                      pz v)) (vertices m)"
    and "faces c = faces m"
proof -
  from assms have "bounds m \<noteq> None"
    by (cases "bounds m") (simp_all add: center_logo_def)
  then show ne: "vertices m \<noteq> []" by simp
  then have b: "bounds m = Some ((Min (px ` set (vertices m)), Min (py ` set (vertices m)),
                    Min (pz ` set (vertices m))),
                   (Max (px ` set (vertices m)), Max (py ` set (vertices m)),
                    Max (pz ` set (vertices m))))"
    by (simp add: bounds_Some)
  from assms have c: "c = apply_transform
      (eye4((0, 3) := - ((Min (px ` set (vertices m)) + Max (px ` set (vertices m))) / 2),
            (1, 3) := - ((Min (py ` set (vertices m)) + Max (py ` set (vertices m))) / 2))) m"
    unfolding center_logo_def b by (simp add: Let_def)
  show "vertices c
         = map (\<lambda>v. (px v + - ((Min (px ` set (vertices m)) + Max (px ` set (vertices m))) / 2),
                      py v + - ((Min (py ` set (vertices m)) + Max (py ` set (vertices m))) / 2),
                      pz v)) (vertices m)"
    unfolding c by (simp only: vertices_apply_transform transform_shift_xy)
  show "faces c = faces m" unfolding c by (simp add: faces_apply_transform)
qed

lemma centered_logo_Finite:
  assumes "centered_logo diameter scale flip_horizontal full_logo = Some (Finite_mesh centered)"
  shows "\<exists>scaled. scale_and_mirror diameter scale flip_horizontal full_logo = Some (Finite_mesh scaled)
           \<and> center_logo scaled = Some centered"
  using assms by (auto simp: centered_logo_def split: option.splits geometry.splits)

lemma centered_logo_z_range:
  assumes "centered_logo diameter scale flip_horizontal full_logo = Some (Finite_mesh centered)"
  shows "z_range centered = z_range full_logo"
proof -
  from centered_logo_Finite [OF assms] obtain scaled
    where sc: "scale_and_mirror diameter scale flip_horizontal full_logo = Some (Finite_mesh scaled)"
      and ce: "center_logo scaled = Some centered" by blast
  from scale_and_mirror_Finite [OF sc] have "map pz (vertices scaled) = map pz (vertices full_logo)"
    by (auto simp: comp_def)
  moreover from center_logo_vertices(2) [OF ce] have "map pz (vertices centered) = map pz (vertices scaled)"
    by (simp add: comp_def)
  ultimately show ?thesis using z_range_cong by metis
qed

lemma z_range_bounds:
  assumes "z_range m = Some (a, b)" and "v \<in> set (vertices m)"
  shows "a \<le> pz v \<and> pz v \<le> b"
  using assms by (simp add: z_range_Some)

lemma z_range_attained:
  assumes "z_range m = Some (a, b)"
  shows "\<exists>v \<in> set (vertices m). pz v = a" and "\<exists>v \<in> set (vertices m). pz v = b"
proof -
  from assms have ne: "vertices m \<noteq> []"
    and a: "a = Min (pz ` set (vertices m))" and b: "b = Max (pz ` set (vertices m))"
    by (simp_all add: z_range_Some)
  have "Min (pz ` set (vertices m)) \<in> pz ` set (vertices m)" using ne by (intro Min_in) auto
  then obtain v where "v \<in> set (vertices m)" "Min (pz ` set (vertices m)) = pz v"
    by (rule imageE)
  then show "\<exists>v \<in> set (vertices m). pz v = a" unfolding a by metis
  have "Max (pz ` set (vertices m)) \<in> pz ` set (vertices m)" using ne by (intro Max_in) auto
  then obtain u where "u \<in> set (vertices m)" "Max (pz ` set (vertices m)) = pz u"
    by (rule imageE)
  then show "\<exists>v \<in> set (vertices m). pz v = b" unfolding b by metis
qed

text \<open>
  Claim C2, as the program has it. When the combined logo spans z from 0 to \<open>logo_depth\<close>
  and steps 5 and 6 give a finite centred mesh, the top instance spans z from
  \<open>thickness / 2 - logo_depth\<close> to \<open>thickness / 2\<close> exactly and the bottom instance from
  \<open>- thickness / 2\<close> to \<open>- thickness / 2 + logo_depth\<close> exactly, for every rotation. Both
  instances stay within \<open>- thickness / 2\<close> and \<open>thickness / 2\<close> exactly when
  \<open>logo_depth \<le> thickness\<close>.
\<close>

theorem flush_placement:
  assumes "z_range full_logo = Some (0, logo_depth)"
    and "centered_logo diameter scale flip_horizontal full_logo = Some (Finite_mesh centered)"
  shows "z_range (top_logo thickness logo_depth top_rotate centered)
           = Some (thickness / 2 - logo_depth, thickness / 2)
       \<and> z_range (bottom_logo thickness logo_depth bottom_rotate centered)
           = Some (- thickness / 2, - thickness / 2 + logo_depth)
       \<and> ((\<forall>v \<in> set (vertices (top_logo thickness logo_depth top_rotate centered))
                  \<union> set (vertices (bottom_logo thickness logo_depth bottom_rotate centered)).
              - thickness / 2 \<le> pz v \<and> pz v \<le> thickness / 2)
            \<longleftrightarrow> logo_depth \<le> thickness)"
proof -
  have zc: "z_range centered = Some (0, logo_depth)"
    using centered_logo_z_range [OF assms(2)] assms(1) by simp
  have top: "z_range (top_logo thickness logo_depth top_rotate centered)
           = Some (thickness / 2 - logo_depth, thickness / 2)"
    using z_range_top_logo [OF zc, of thickness logo_depth top_rotate] by simp
  have bot: "z_range (bottom_logo thickness logo_depth bottom_rotate centered)
           = Some (- thickness / 2, - thickness / 2 + logo_depth)"
    using z_range_bottom_logo [OF zc, of thickness logo_depth bottom_rotate] by simp
  from zc have d0: "0 \<le> logo_depth"
    using z_range_attained(1) [OF zc] z_range_bounds [OF zc] by fastforce
  have "(\<forall>v \<in> set (vertices (top_logo thickness logo_depth top_rotate centered))
                  \<union> set (vertices (bottom_logo thickness logo_depth bottom_rotate centered)).
              - thickness / 2 \<le> pz v \<and> pz v \<le> thickness / 2)
            \<longleftrightarrow> logo_depth \<le> thickness"
  proof
    assume all: "\<forall>v \<in> set (vertices (top_logo thickness logo_depth top_rotate centered))
                  \<union> set (vertices (bottom_logo thickness logo_depth bottom_rotate centered)).
              - thickness / 2 \<le> pz v \<and> pz v \<le> thickness / 2"
    from z_range_attained(1) [OF top] obtain v
      where v: "v \<in> set (vertices (top_logo thickness logo_depth top_rotate centered))"
        and pv: "pz v = thickness / 2 - logo_depth" by blast
    from all v have "- thickness / 2 \<le> pz v" by blast
    with pv show "logo_depth \<le> thickness" by (simp add: field_simps)
  next
    assume le: "logo_depth \<le> thickness"
    show "\<forall>v \<in> set (vertices (top_logo thickness logo_depth top_rotate centered))
                  \<union> set (vertices (bottom_logo thickness logo_depth bottom_rotate centered)).
              - thickness / 2 \<le> pz v \<and> pz v \<le> thickness / 2"
    proof
      fix v assume "v \<in> set (vertices (top_logo thickness logo_depth top_rotate centered))
                  \<union> set (vertices (bottom_logo thickness logo_depth bottom_rotate centered))"
      then consider "v \<in> set (vertices (top_logo thickness logo_depth top_rotate centered))"
        | "v \<in> set (vertices (bottom_logo thickness logo_depth bottom_rotate centered))" by blast
      then show "- thickness / 2 \<le> pz v \<and> pz v \<le> thickness / 2"
      proof cases
        case 1
        from z_range_bounds [OF top 1] le d0 show ?thesis by (simp add: field_simps)
      next
        case 2
        from z_range_bounds [OF bot 2] le d0 show ?thesis by (simp add: field_simps)
      qed
    qed
  qed
  with top bot show ?thesis by blast
qed


lemma demo_centered:
  "centered_logo 100 (17/20) True (demo_box 4 2 d) = Some (Finite_mesh (demo_centered_box d))"
  by (simp add: centered_logo_def scale_and_mirror_def center_logo_def bounds_def np_divide_def
      apply_transform_def transform_point_def eye4_def demo_box_def demo_centered_box_def Let_def)

lemma demo_box_z_range: "0 \<le> d \<Longrightarrow> z_range (demo_box 4 2 d) = Some (0, d)"
  by (simp add: z_range_def bounds_def demo_box_def)

lemma demo_centered_z_range: "0 \<le> d \<Longrightarrow> z_range (demo_centered_box d) = Some (0, d)"
  by (simp add: z_range_def bounds_def demo_centered_box_def)

theorem flush_placement_witness:
  "z_range (demo_box 4 2 (3/5)) = Some (0, 3/5)
   \<and> centered_logo 100 (17/20) True (demo_box 4 2 (3/5)) = Some (Finite_mesh (demo_centered_box (3/5)))
   \<and> z_range (top_logo 5 (3/5) 0 (demo_centered_box (3/5))) = Some (19/10, 5/2)
   \<and> z_range (bottom_logo 5 (3/5) 90 (demo_centered_box (3/5))) = Some (- 5/2, - 19/10)
   \<and> (3/5 :: real) \<le> 5"
proof -
  have z: "z_range (demo_box 4 2 (3/5)) = Some (0, 3/5)" by (simp add: demo_box_z_range)
  from flush_placement [OF z demo_centered [of "3/5"], of 5 0 90]
  have "z_range (top_logo 5 (3/5) 0 (demo_centered_box (3/5))) = Some (19/10, 5/2)
     \<and> z_range (bottom_logo 5 (3/5) 90 (demo_centered_box (3/5))) = Some (- 5/2, - 19/10)"
    by simp
  with z demo_centered [of "3/5"] show ?thesis by simp
qed

text \<open>
  Claim C2 as stated fails for a logo deeper than the base is thick: thickness 2 and logo
  depth 5 are both in the declared ranges, and the top instance then reaches down to
  z = -4, below the bottom face of the base at z = -1.
\<close>

theorem flush_placement_counterexample:
  "in_range 100 2 5 (17/20)
   \<and> z_range (demo_box 4 2 5) = Some (0, 5)
   \<and> centered_logo 100 (17/20) True (demo_box 4 2 5) = Some (Finite_mesh (demo_centered_box 5))
   \<and> z_range (top_logo 2 5 0 (demo_centered_box 5)) = Some (- 4, 1)
   \<and> (85 / 2, - 85 / 4, - 4) \<in> set (vertices (top_logo 2 5 0 (demo_centered_box 5)))
   \<and> \<not> (- 2 / 2 \<le> (- 4 :: real))"
proof -
  have r: "in_range 100 2 5 (17/20)" by (simp add: in_range_def)
  have z: "z_range (demo_box 4 2 5) = Some (0, 5)" by (simp add: demo_box_z_range)
  have zt: "z_range (top_logo 2 5 0 (demo_centered_box 5)) = Some (- 4, 1)"
    using z_range_top_logo [OF demo_centered_z_range [of 5], of 2 5 0] by simp
  have v: "(85 / 2, - 85 / 4, - 4) \<in> set (vertices (top_logo 2 5 0 (demo_centered_box 5)))"
    by (simp add: vertices_top_logo demo_centered_box_def radians_def)
  from r z demo_centered [of 5] zt v show ?thesis by simp
qed

section \<open>Normalizing, centring and mirroring\<close>

lemma extent_image_scale:
  fixes f :: "'a \<Rightarrow> real"
  assumes "finite S" "S \<noteq> {}"
  shows "Max ((\<lambda>v. c * f v) ` S) - Min ((\<lambda>v. c * f v) ` S) = \<bar>c\<bar> * (Max (f ` S) - Min (f ` S))"
proof (cases "0 \<le> c")
  case True
  then show ?thesis
    by (simp add: Max_image_scale [OF assms] Min_image_scale [OF assms] algebra_simps)
next
  case False
  then have c: "0 \<le> - c" by simp
  have eq: "(\<lambda>v. c * f v) = (\<lambda>v. - ((- c) * f v))" by (rule ext) simp
  have "Max ((\<lambda>v. - ((- c) * f v)) ` S) = - Min ((\<lambda>v. (- c) * f v) ` S)"
    by (rule Max_image_neg [OF assms])
  moreover have "Min ((\<lambda>v. - ((- c) * f v)) ` S) = - Max ((\<lambda>v. (- c) * f v) ` S)"
    by (rule Min_image_neg [OF assms])
  ultimately show ?thesis
    using False unfolding eq
    by (simp only: Max_image_scale [OF assms c] Min_image_scale [OF assms c]) (simp add: algebra_simps)
qed

lemma xy_extents_image:
  "xy_extents m = Some (w, h) \<longleftrightarrow>
     vertices m \<noteq> [] \<and> w = Max (px ` set (vertices m)) - Min (px ` set (vertices m))
       \<and> h = Max (py ` set (vertices m)) - Min (py ` set (vertices m))"
  by (auto simp: xy_extents_def bounds_def)

text \<open>
  Claim C3. For a combined logo whose XY bounding box is \<open>w\<close> wide and \<open>h\<close> high with
  \<open>w \<ge> h > 0\<close>, and positive diameter and scale, step 5 succeeds with a finite mesh: X
  and Y are both multiplied by the one factor \<open>diameter * scale / w\<close> (X with a minus sign
  when mirroring is on), Z is kept, and the new bounding box is \<open>diameter * scale\<close> wide
  and \<open>diameter * scale * (h / w)\<close> high.
\<close>

theorem normalizer_extents:
  assumes "xy_extents full_logo = Some (w, h)"
    and "0 < h" and "h \<le> w" and "0 < diameter" and "0 < scale"
  shows "\<exists>scaled.
           scale_and_mirror diameter scale flip_horizontal full_logo = Some (Finite_mesh scaled)
         \<and> vertices scaled
             = map (\<lambda>v. ((if flip_horizontal then - 1 else 1) * (diameter * scale / w) * px v,
                          (diameter * scale / w) * py v, pz v)) (vertices full_logo)
         \<and> xy_extents scaled = Some (diameter * scale, diameter * scale * (h / w))"
proof -
  from assms have mx: "max w h = w" and w0: "0 < w" by simp_all
  define f where "f = diameter * scale / w"
  define fx where "fx = (if flip_horizontal then - 1 else 1) * f"
  have f0: "0 < f" using assms w0 by (simp add: f_def)
  have abs_fx: "\<bar>fx\<bar> = f" and abs_f: "\<bar>f\<bar> = f" using f0 by (simp_all add: fx_def)
  from assms(1) have ne: "vertices full_logo \<noteq> []"
    and w: "Max (px ` set (vertices full_logo)) - Min (px ` set (vertices full_logo)) = w"
    and h: "Max (py ` set (vertices full_logo)) - Min (py ` set (vertices full_logo)) = h"
    by (simp_all add: xy_extents_image)
  have fin: "finite (set (vertices full_logo))" "set (vertices full_logo) \<noteq> {}" using ne by simp_all
  define scaled where "scaled = apply_transform
             (eye4((0, 0) := eye4 (0, 0) * ((if flip_horizontal then - 1 else 1) * (diameter * scale) / max w h),
                   (1, 1) := eye4 (1, 1) * (diameter * scale / max w h))) full_logo"
  have sm: "scale_and_mirror diameter scale flip_horizontal full_logo = Some (Finite_mesh scaled)"
    using scale_and_mirror_cases [OF assms(1), of diameter scale flip_horizontal] w0 mx
    by (simp add: scaled_def)
  have "vertices scaled
      = map (\<lambda>v. ((if flip_horizontal then - 1 else 1) * (diameter * scale) / w * px v,
                   diameter * scale / w * py v, pz v)) (vertices full_logo)"
    unfolding scaled_def mx by (simp only: vertices_apply_transform transform_scale)
  then have vs: "vertices scaled = map (\<lambda>v. (fx * px v, f * py v, pz v)) (vertices full_logo)"
    by (simp add: fx_def f_def)
  have ne': "vertices scaled \<noteq> []" using ne by (simp add: vs)
  have ix: "px ` set (vertices scaled) = (\<lambda>v. fx * px v) ` set (vertices full_logo)"
    using coords_image(1) [OF vs] by simp
  have iy: "py ` set (vertices scaled) = (\<lambda>v. f * py v) ` set (vertices full_logo)"
    using coords_image(2) [OF vs] by simp
  have ex: "Max (px ` set (vertices scaled)) - Min (px ` set (vertices scaled)) = f * w"
    unfolding ix extent_image_scale [OF fin] abs_fx w ..
  have ey: "Max (py ` set (vertices scaled)) - Min (py ` set (vertices scaled)) = f * h"
    unfolding iy extent_image_scale [OF fin] abs_f h ..
  have fw: "f * w = diameter * scale" and fh: "f * h = diameter * scale * (h / w)"
    using w0 by (simp_all add: f_def)
  have xe: "xy_extents scaled = Some (diameter * scale, diameter * scale * (h / w))"
    using ne' by (simp only: xy_extents_image ex ey fw fh) simp
  have "vertices scaled
             = map (\<lambda>v. ((if flip_horizontal then - 1 else 1) * (diameter * scale / w) * px v,
                          (diameter * scale / w) * py v, pz v)) (vertices full_logo)"
    unfolding vs fx_def f_def ..
  with sm xe show ?thesis by blast
qed

lemma apply_transform_id:
  assumes "map (transform_point M) (vertices m) = vertices m"
  shows "apply_transform M m = m"
  using assms by (simp add: apply_transform_def)

text \<open>
  Claim C8. Centring is idempotent: centring the centred mesh gives the same mesh again,
  the Z coordinates are those of the mesh before centring, and the XY bounding box of the
  centred mesh has its centre at the origin.
\<close>

theorem centering_idempotent:
  assumes "center_logo m = Some c"
  shows "center_logo c = Some c
       \<and> map pz (vertices c) = map pz (vertices m)
       \<and> (\<exists>lo hi. bounds c = Some (lo, hi) \<and> (px lo + px hi) / 2 = 0 \<and> (py lo + py hi) / 2 = 0)"
proof -
  let ?cx = "(Min (px ` set (vertices m)) + Max (px ` set (vertices m))) / 2"
  let ?cy = "(Min (py ` set (vertices m)) + Max (py ` set (vertices m))) / 2"
  from center_logo_vertices [OF assms]
  have ne: "vertices m \<noteq> []"
    and vc: "vertices c = map (\<lambda>v. (px v + - ?cx, py v + - ?cy, pz v)) (vertices m)"
    by simp_all
  have fin: "finite (set (vertices m))" "set (vertices m) \<noteq> {}" using ne by simp_all
  have ne': "vertices c \<noteq> []" using ne by (simp add: vc)
  have ix: "px ` set (vertices c) = (\<lambda>v. px v + - ?cx) ` set (vertices m)"
    using coords_image(1) [OF vc] by simp
  have iy: "py ` set (vertices c) = (\<lambda>v. py v + - ?cy) ` set (vertices m)"
    using coords_image(2) [OF vc] by simp
  have mnx: "Min (px ` set (vertices c)) = Min (px ` set (vertices m)) + - ?cx"
    unfolding ix by (rule Min_add_commute [OF fin])
  have mxx: "Max (px ` set (vertices c)) = Max (px ` set (vertices m)) + - ?cx"
    unfolding ix by (rule Max_add_commute [OF fin])
  have mny: "Min (py ` set (vertices c)) = Min (py ` set (vertices m)) + - ?cy"
    unfolding iy by (rule Min_add_commute [OF fin])
  have mxy: "Max (py ` set (vertices c)) = Max (py ` set (vertices m)) + - ?cy"
    unfolding iy by (rule Max_add_commute [OF fin])
  have cx0: "(Min (px ` set (vertices c)) + Max (px ` set (vertices c))) / 2 = 0"
    unfolding mnx mxx by (simp add: field_simps)
  have cy0: "(Min (py ` set (vertices c)) + Max (py ` set (vertices c))) / 2 = 0"
    unfolding mny mxy by (simp add: field_simps)
  have b: "bounds c = Some ((Min (px ` set (vertices c)), Min (py ` set (vertices c)),
                    Min (pz ` set (vertices c))),
                   (Max (px ` set (vertices c)), Max (py ` set (vertices c)),
                    Max (pz ` set (vertices c))))"
    using ne' by (simp add: bounds_Some)
  have "center_logo c = Some (apply_transform (eye4((0, 3) := - 0, (1, 3) := - 0)) c)"
    unfolding center_logo_def b using cx0 cy0 by (simp add: Let_def)
  also have "apply_transform (eye4((0, 3) := - 0, (1, 3) := - 0)) c = c"
    by (rule apply_transform_id) (simp only: transform_shift_xy, simp)
  finally have idem: "center_logo c = Some c" .
  have zs: "map pz (vertices c) = map pz (vertices m)" by (simp add: vc comp_def)
  from b cx0 cy0 have "\<exists>lo hi. bounds c = Some (lo, hi) \<and> (px lo + px hi) / 2 = 0
      \<and> (py lo + py hi) / 2 = 0" by simp
  with idem zs show ?thesis by blast
qed

lemma center_logo_mirror:
  assumes "center_logo a = Some ca"
    and "vertices b = map mirror_image_x (vertices a)"
  shows "\<exists>cb. center_logo b = Some cb \<and> vertices cb = map mirror_image_x (vertices ca)"
proof -
  let ?cx = "(Min (px ` set (vertices a)) + Max (px ` set (vertices a))) / 2"
  let ?cy = "(Min (py ` set (vertices a)) + Max (py ` set (vertices a))) / 2"
  from center_logo_vertices [OF assms(1)]
  have ne: "vertices a \<noteq> []"
    and vca: "vertices ca = map (\<lambda>v. (px v + - ?cx, py v + - ?cy, pz v)) (vertices a)"
    by simp_all
  have fin: "finite (set (vertices a))" "set (vertices a) \<noteq> {}" using ne by simp_all
  have neb: "vertices b \<noteq> []" using ne by (simp add: assms(2))
  from center_logo_Some [OF neb] obtain cb where cb: "center_logo b = Some cb" by blast
  have ix: "px ` set (vertices b) = (\<lambda>v. - px v) ` set (vertices a)"
    using coords_image(1) [OF assms(2)] by (simp add: mirror_image_x_def)
  have iy: "py ` set (vertices b) = py ` set (vertices a)"
    using coords_image(2) [OF assms(2)] by (simp add: mirror_image_x_def)
  have mnx: "Min (px ` set (vertices b)) = - Max (px ` set (vertices a))"
    unfolding ix by (rule Min_image_neg [OF fin])
  have mxx: "Max (px ` set (vertices b)) = - Min (px ` set (vertices a))"
    unfolding ix by (rule Max_image_neg [OF fin])
  have "vertices cb
         = map (\<lambda>v. (px v + - ((- Max (px ` set (vertices a)) + - Min (px ` set (vertices a))) / 2),
                      py v + - ((Min (py ` set (vertices a)) + Max (py ` set (vertices a))) / 2),
                      pz v)) (vertices b)"
    using center_logo_vertices(2) [OF cb] unfolding mnx mxx iy .
  then have "vertices cb = map mirror_image_x (vertices ca)"
    by (simp add: vca assms(2) mirror_image_x_def comp_def field_simps)
  with cb show ?thesis by blast
qed

text \<open>
  Claim C7. With the same diameter, scale and combined logo, the centred logo with
  mirroring on has, vertex by vertex, the X mirror image of the centred logo with mirroring
  off.
\<close>

theorem mirror_symmetry:
  assumes "centered_logo diameter scale False full_logo = Some (Finite_mesh plain)"
  shows "\<exists>mirrored. centered_logo diameter scale True full_logo = Some (Finite_mesh mirrored)
           \<and> vertices mirrored = map mirror_image_x (vertices plain)"
proof -
  from centered_logo_Finite [OF assms] obtain sp
    where sp: "scale_and_mirror diameter scale False full_logo = Some (Finite_mesh sp)"
      and cp: "center_logo sp = Some plain" by blast
  from scale_and_mirror_Finite [OF sp] obtain w h
    where ex: "xy_extents full_logo = Some (w, h)" and nz: "max w h \<noteq> 0"
      and vsp: "vertices sp = map (\<lambda>v. (diameter * scale / max w h * px v,
                           diameter * scale / max w h * py v, pz v)) (vertices full_logo)"
    by auto
  define sm where "sm = apply_transform
             (eye4((0, 0) := eye4 (0, 0) * ((if True then - 1 else 1) * (diameter * scale) / max w h),
                   (1, 1) := eye4 (1, 1) * (diameter * scale / max w h))) full_logo"
  have sms: "scale_and_mirror diameter scale True full_logo = Some (Finite_mesh sm)"
    using scale_and_mirror_cases [OF ex, of diameter scale True] nz by (simp add: sm_def)
  have vsm: "vertices sm = map mirror_image_x (vertices sp)"
    unfolding sm_def vsp
    by (simp only: vertices_apply_transform transform_scale) (simp add: mirror_image_x_def comp_def)
  from center_logo_mirror [OF cp vsm] obtain cm
    where "center_logo sm = Some cm" "vertices cm = map mirror_image_x (vertices plain)" by blast
  with sms show ?thesis by (simp add: centered_logo_def)
qed


theorem normalizer_extents_witness:
  "xy_extents (demo_box 4 2 (3/5)) = Some (4, 2)
   \<and> (0 :: real) < 2 \<and> (2 :: real) \<le> 4 \<and> (0 :: real) < 100 \<and> (0 :: real) < 17/20
   \<and> (\<exists>scaled. scale_and_mirror 100 (17/20) True (demo_box 4 2 (3/5)) = Some (Finite_mesh scaled)
         \<and> xy_extents scaled = Some (85, 85 / 2))"
proof -
  have h: "(0 :: real) < 2" "(2 :: real) \<le> 4" "(0 :: real) < 100" "(0 :: real) < 17/20"
    by simp_all
  from normalizer_extents [OF demo_box_extents [of "3/5"] h, of True]
  have "\<exists>scaled. scale_and_mirror 100 (17/20) True (demo_box 4 2 (3/5)) = Some (Finite_mesh scaled)
         \<and> xy_extents scaled = Some (85, 85 / 2)"
    by auto
  with demo_box_extents [of "3/5"] show ?thesis by simp
qed

lemma demo_centered_plain:
  "centered_logo 100 (17/20) False (demo_box 4 2 d)
   = Some (Finite_mesh \<lparr>vertices = map mirror_image_x (vertices (demo_centered_box d)),
                        faces = faces (demo_box 4 2 d)\<rparr>)"
  by (simp add: centered_logo_def scale_and_mirror_def center_logo_def bounds_def np_divide_def
      apply_transform_def transform_point_def eye4_def demo_box_def demo_centered_box_def Let_def
      mirror_image_x_def)

theorem mirror_symmetry_witness:
  "centered_logo 100 (17/20) False (demo_box 4 2 (3/5))
     = Some (Finite_mesh \<lparr>vertices = map mirror_image_x (vertices (demo_centered_box (3/5))),
                          faces = faces (demo_box 4 2 (3/5))\<rparr>)
   \<and> (\<exists>mirrored. centered_logo 100 (17/20) True (demo_box 4 2 (3/5)) = Some (Finite_mesh mirrored)
         \<and> vertices mirrored = vertices (demo_centered_box (3/5)))"
proof -
  from mirror_symmetry [OF demo_centered_plain [of "3/5"]]
  obtain mirrored where m: "centered_logo 100 (17/20) True (demo_box 4 2 (3/5)) = Some (Finite_mesh mirrored)"
    and v: "vertices mirrored = map mirror_image_x (vertices
        \<lparr>vertices = map mirror_image_x (vertices (demo_centered_box (3/5))),
         faces = faces (demo_box 4 2 (3/5))\<rparr>)"
    by blast
  from v have "vertices mirrored = vertices (demo_centered_box (3/5))"
    by (simp add: mirror_image_x_def demo_centered_box_def)
  with m demo_centered_plain [of "3/5"] show ?thesis by blast
qed

lemma demo_center_box:
  "center_logo (demo_box 4 2 d)
   = Some \<lparr>vertices = [(- 2, - 1, 0), (2, - 1, 0), (2, 1, 0), (- 2, 1, 0),
                        (- 2, - 1, d), (2, - 1, d), (2, 1, d), (- 2, 1, d)],
           faces = faces (demo_box 4 2 d)\<rparr>"
  by (simp add: center_logo_def bounds_def apply_transform_def transform_point_def eye4_def
      demo_box_def Let_def)

theorem centering_idempotent_witness:
  "center_logo (demo_box 4 2 (3/5))
     = Some \<lparr>vertices = [(- 2, - 1, 0), (2, - 1, 0), (2, 1, 0), (- 2, 1, 0),
                          (- 2, - 1, 3/5), (2, - 1, 3/5), (2, 1, 3/5), (- 2, 1, 3/5)],
             faces = faces (demo_box 4 2 (3/5))\<rparr>
   \<and> center_logo \<lparr>vertices = [(- 2, - 1, 0), (2, - 1, 0), (2, 1, 0), (- 2, 1, 0),
                          (- 2, - 1, 3/5), (2, - 1, 3/5), (2, 1, 3/5), (- 2, 1, 3/5)],
             faces = faces (demo_box 4 2 (3/5))\<rparr>
     = Some \<lparr>vertices = [(- 2, - 1, 0), (2, - 1, 0), (2, 1, 0), (- 2, 1, 0),
                          (- 2, - 1, 3/5), (2, - 1, 3/5), (2, 1, 3/5), (- 2, 1, 3/5)],
             faces = faces (demo_box 4 2 (3/5))\<rparr>"
  using centering_idempotent [OF demo_center_box [of "3/5"]] demo_center_box [of "3/5"]
  by blast

section \<open>Rotation of the two instances\<close>

text \<open>
  Claim C6. For every real number of degrees, a multiple of 90 or not, the top instance is
  the centred logo rotated about the Z axis through the origin by exactly that angle and
  then shifted along Z; the bottom instance is rotated about Z by its own angle in the
  same way, then turned half a turn about the X axis, then shifted along Z.
\<close>

theorem rotation_honoured:
  "vertices (top_logo thickness logo_depth top_rotate centered)
     = map (shift_z (thickness / 2 - logo_depth) \<circ> rotate_z_deg top_rotate)
         (vertices centered)
   \<and> vertices (bottom_logo thickness logo_depth bottom_rotate centered)
     = map (shift_z (- thickness / 2 + logo_depth) \<circ> flip_about_x
            \<circ> rotate_z_deg bottom_rotate) (vertices centered)"
  by (simp add: vertices_top_logo vertices_bottom_logo shift_z_def flip_about_x_def
      rotate_z_deg_def radians_def comp_def)

theorem rotation_honoured_witness:
  "vertices (top_logo 5 (3/5) 45 \<lparr>vertices = [(1, 0, 0)], faces = []\<rparr>)
     = [(sqrt 2 / 2, sqrt 2 / 2, 19 / 10)]
   \<and> vertices (bottom_logo 5 (3/5) 45 \<lparr>vertices = [(1, 0, 0)], faces = []\<rparr>)
     = [(sqrt 2 / 2, - (sqrt 2 / 2), - 19 / 10)]
   \<and> vertices (top_logo 5 (3/5) (91/2) \<lparr>vertices = [(1, 0, 0)], faces = []\<rparr>)
     = [(cos (91 / 2 * pi / 180), sin (91 / 2 * pi / 180), 19 / 10)]"
proof -
  have a: "vertices (top_logo 5 (3/5) 45 \<lparr>vertices = [(1, 0, 0)], faces = []\<rparr>)
     = [(sqrt 2 / 2, sqrt 2 / 2, 19 / 10)]
   \<and> vertices (bottom_logo 5 (3/5) 45 \<lparr>vertices = [(1, 0, 0)], faces = []\<rparr>)
     = [(sqrt 2 / 2, - (sqrt 2 / 2), - 19 / 10)]"
    using rotation_honoured [of 5 "3/5" 45 "\<lparr>vertices = [(1, 0, 0)], faces = []\<rparr>" 45]
    by (simp add: shift_z_def flip_about_x_def rotate_z_deg_def cos_45 sin_45)
  have b: "vertices (top_logo 5 (3/5) (91/2) \<lparr>vertices = [(1, 0, 0)], faces = []\<rparr>)
     = [(cos (91 / 2 * pi / 180), sin (91 / 2 * pi / 180), 19 / 10)]"
    using rotation_honoured [of 5 "3/5" "91/2" "\<lparr>vertices = [(1, 0, 0)], faces = []\<rparr>" 0]
    by (simp add: shift_z_def rotate_z_deg_def)
  from a b show ?thesis by blast
qed

section \<open>The base cylinder\<close>

lemma ring_member:
  "v \<in> set (ring radius z sections) \<longleftrightarrow>
     (\<exists>k < sections. v = (radius * cos (2 * pi * real k / real sections),
                          radius * sin (2 * pi * real k / real sections), z))"
  by (auto simp: ring_def)

lemma ring_on_circle:
  assumes "v \<in> set (ring radius z sections)"
  shows "pz v = z" and "(px v)\<^sup>2 + (py v)\<^sup>2 = radius\<^sup>2"
    and "- \<bar>radius\<bar> \<le> px v" and "px v \<le> \<bar>radius\<bar>"
    and "- \<bar>radius\<bar> \<le> py v" and "py v \<le> \<bar>radius\<bar>"
proof -
  from assms obtain k where v: "v = (radius * cos (2 * pi * real k / real sections),
                          radius * sin (2 * pi * real k / real sections), z)"
    by (auto simp: ring_member)
  let ?a = "2 * pi * real k / real sections"
  show "pz v = z" by (simp add: v)
  have "(radius * cos ?a)\<^sup>2 + (radius * sin ?a)\<^sup>2 = radius\<^sup>2 * ((cos ?a)\<^sup>2 + (sin ?a)\<^sup>2)"
    by (simp only: power_mult_distrib distrib_left)
  also have "\<dots> = radius\<^sup>2" by simp
  finally show "(px v)\<^sup>2 + (py v)\<^sup>2 = radius\<^sup>2" by (simp only: v fst_conv snd_conv)
  have c: "\<bar>radius * cos ?a\<bar> \<le> \<bar>radius\<bar>"
    unfolding abs_mult using abs_cos_le_one [of ?a] by (simp add: mult_left_le)
  have s: "\<bar>radius * sin ?a\<bar> \<le> \<bar>radius\<bar>"
    unfolding abs_mult using abs_sin_le_one [of ?a] by (simp add: mult_left_le)
  from c show "- \<bar>radius\<bar> \<le> px v" "px v \<le> \<bar>radius\<bar>" by (simp_all add: v abs_le_iff)
  from s show "- \<bar>radius\<bar> \<le> py v" "py v \<le> \<bar>radius\<bar>" by (simp_all add: v abs_le_iff)
qed

lemma ring_120_points:
  "(radius, 0, z) \<in> set (ring radius z 120)"
  "(0, radius, z) \<in> set (ring radius z 120)"
  "(- radius, 0, z) \<in> set (ring radius z 120)"
  "(0, - radius, z) \<in> set (ring radius z 120)"
proof -
  show "(radius, 0, z) \<in> set (ring radius z 120)"
    unfolding ring_member by (rule exI [of _ 0]) simp
  show "(0, radius, z) \<in> set (ring radius z 120)"
    unfolding ring_member by (rule exI [of _ 30]) simp
  show "(- radius, 0, z) \<in> set (ring radius z 120)"
    unfolding ring_member by (rule exI [of _ 60]) simp
  have "sin (2 * pi * 90 / 120) = - 1" "cos (2 * pi * 90 / 120) = 0"
    using sin_3over2_pi cos_3over2_pi by (simp_all add: field_simps)
  then show "(0, - radius, z) \<in> set (ring radius z 120)"
    unfolding ring_member by (intro exI [of _ 90]) simp
qed

lemma vertices_cylinder:
  "set (vertices (cylinder radius height sections))
   = {(0, 0, - height / 2), (0, 0, height / 2)}
     \<union> set (ring radius (- height / 2) sections) \<union> set (ring radius (height / 2) sections)"
  by (auto simp: cylinder_def)

lemma cylinder_counts:
  "length (vertices (cylinder radius height sections)) = 2 + 2 * sections"
  "length (faces (cylinder radius height sections)) = 4 * sections"
  by (simp_all add: cylinder_def ring_def cap_faces_def side_faces_def length_concat comp_def
      sum_list_triv)

lemma cylinder_bounds:
  assumes "0 \<le> radius" and "0 \<le> height"
  shows "bounds (cylinder radius height 120)
         = Some ((- radius, - radius, - height / 2), (radius, radius, height / 2))"
proof -
  let ?V = "set (vertices (cylinder radius height 120))"
  have ne: "vertices (cylinder radius height 120) \<noteq> []" by (simp add: cylinder_def)
  have fin: "finite ?V" by simp
  have bnd: "- radius \<le> px v \<and> px v \<le> radius \<and> - radius \<le> py v \<and> py v \<le> radius
      \<and> - height / 2 \<le> pz v \<and> pz v \<le> height / 2" if "v \<in> ?V" for v
  proof -
    from that consider "v = (0, 0, - height / 2)" | "v = (0, 0, height / 2)"
      | "v \<in> set (ring radius (- height / 2) 120)" | "v \<in> set (ring radius (height / 2) 120)"
      unfolding vertices_cylinder by blast
    then show ?thesis
    proof cases
      case 1 then show ?thesis using assms by simp
    next
      case 2 then show ?thesis using assms by simp
    next
      case 3 from ring_on_circle [OF 3] assms show ?thesis by simp
    next
      case 4 from ring_on_circle [OF 4] assms show ?thesis by simp
    qed
  qed
  have mem: "(radius, 0, - height / 2) \<in> ?V" "(0, radius, - height / 2) \<in> ?V"
    "(- radius, 0, - height / 2) \<in> ?V" "(0, - radius, - height / 2) \<in> ?V"
    "(0, 0, height / 2) \<in> ?V"
    unfolding vertices_cylinder using ring_120_points [of radius "- height / 2"] by simp_all
  have "Min (px ` ?V) = - radius"
    by (rule Min_eqI) (use fin bnd mem(3) in \<open>auto simp: image_iff intro: bexI [of _ "(- radius, 0, - height / 2)"]\<close>)
  moreover have "Max (px ` ?V) = radius"
    by (rule Max_eqI) (use fin bnd mem(1) in \<open>auto simp: image_iff intro: bexI [of _ "(radius, 0, - height / 2)"]\<close>)
  moreover have "Min (py ` ?V) = - radius"
    by (rule Min_eqI) (use fin bnd mem(4) in \<open>auto simp: image_iff intro: bexI [of _ "(0, - radius, - height / 2)"]\<close>)
  moreover have "Max (py ` ?V) = radius"
    by (rule Max_eqI) (use fin bnd mem(2) in \<open>auto simp: image_iff intro: bexI [of _ "(0, radius, - height / 2)"]\<close>)
  moreover have "Min (pz ` ?V) = - height / 2"
    by (rule Min_eqI) (use fin bnd mem(1) in \<open>auto simp: image_iff intro: bexI [of _ "(radius, 0, - height / 2)"]\<close>)
  moreover have "Max (pz ` ?V) = height / 2"
    by (rule Max_eqI) (use fin bnd mem(5) in \<open>auto simp: image_iff intro: bexI [of _ "(0, 0, height / 2)"]\<close>)
  ultimately show ?thesis using ne by (simp add: bounds_Some)
qed


lemma ring_120_member:
  "k < 120 \<Longrightarrow>
   (radius * cos (2 * pi * real k / 120), radius * sin (2 * pi * real k / 120), z)
     \<in> set (ring radius z 120)"
  unfolding ring_member by (rule exI [of _ k]) simp

lemma cap_faces_member:
  "k < sections \<Longrightarrow> (centre, first + k, first + (k + 1) mod sections)
     \<in> set (cap_faces centre first sections)"
  by (auto simp: cap_faces_def)

lemma written_base:
  "written (generate E output_name diameter thickness logo_depth scale flip_horizontal
              top_rotate bottom_rotate svg_path svg_string) \<noteq> [] \<Longrightarrow>
   snd (hd (written (generate E output_name diameter thickness logo_depth scale flip_horizontal
              top_rotate bottom_rotate svg_path svg_string)))
   = Finite_mesh (base_cylinder diameter thickness)"
proof (cases "load_svg E svg_path svg_string")
  case (Pair r srcs)
  assume w: "written (generate E output_name diameter thickness logo_depth scale flip_horizontal
              top_rotate bottom_rotate svg_path svg_string) \<noteq> []"
  show ?thesis
  proof (cases r)
    case (Inl err)
    with Pair w show ?thesis by (simp add: generate_load_failed)
  next
    case (Inr path)
    with Pair have l: "load_svg E svg_path svg_string = (Inr path, srcs)" by simp
    from w show ?thesis
      by (simp add: generate_after_load [OF l] export_meshes_def Let_def
          split: option.splits if_splits)
  qed
qed

text \<open>
  Claim C9. The base is built with radius \<open>diameter / 2\<close>, height \<open>thickness\<close> and 120
  segments, and it is the first file written, unchanged. For a non-negative diameter and
  thickness its bounding box is centred at the origin and runs from \<open>- diameter / 2\<close> to
  \<open>diameter / 2\<close> in X and Y and from \<open>- thickness / 2\<close> to \<open>thickness / 2\<close> in Z; every
  vertex lies on one of the two cap planes, at distance \<open>diameter / 2\<close> from the Z axis or on
  it; each cap has its 120 ring points and a fan of 120 triangles around its centre.
\<close>

theorem base_is_capped_cylinder:
  assumes "0 \<le> diameter" and "0 \<le> thickness"
  shows "bounds (base_cylinder diameter thickness)
           = Some ((- diameter / 2, - diameter / 2, - thickness / 2),
                   (diameter / 2, diameter / 2, thickness / 2))
       \<and> (\<forall>v \<in> set (vertices (base_cylinder diameter thickness)).
             (pz v = - thickness / 2 \<or> pz v = thickness / 2)
             \<and> ((px v)\<^sup>2 + (py v)\<^sup>2 = (diameter / 2)\<^sup>2 \<or> (px v = 0 \<and> py v = 0)))
       \<and> (\<forall>k < 120.
             (diameter / 2 * cos (2 * pi * real k / 120), diameter / 2 * sin (2 * pi * real k / 120),
              - thickness / 2) \<in> set (vertices (base_cylinder diameter thickness))
           \<and> (diameter / 2 * cos (2 * pi * real k / 120), diameter / 2 * sin (2 * pi * real k / 120),
              thickness / 2) \<in> set (vertices (base_cylinder diameter thickness)))
       \<and> length (vertices (base_cylinder diameter thickness)) = 242
       \<and> length (faces (base_cylinder diameter thickness)) = 480
       \<and> vertices (base_cylinder diameter thickness) ! 0 = (0, 0, - thickness / 2)
       \<and> vertices (base_cylinder diameter thickness) ! 1 = (0, 0, thickness / 2)
       \<and> (\<forall>k < 120.
             (0, 2 + k, 2 + (k + 1) mod 120) \<in> set (faces (base_cylinder diameter thickness))
           \<and> (1, 122 + k, 122 + (k + 1) mod 120) \<in> set (faces (base_cylinder diameter thickness)))
       \<and> (written (generate E output_name diameter thickness logo_depth scale flip_horizontal
              top_rotate bottom_rotate svg_path svg_string) \<noteq> [] \<longrightarrow>
           snd (hd (written (generate E output_name diameter thickness logo_depth scale
              flip_horizontal top_rotate bottom_rotate svg_path svg_string)))
           = Finite_mesh (cylinder (diameter / 2) thickness 120))"
proof -
  let ?B = "base_cylinder diameter thickness"
  have b: "bounds ?B = Some ((- diameter / 2, - diameter / 2, - thickness / 2),
                   (diameter / 2, diameter / 2, thickness / 2))"
    unfolding base_cylinder_def
    using cylinder_bounds [of "diameter / 2" thickness] assms by simp
  have v: "\<forall>v \<in> set (vertices ?B).
             (pz v = - thickness / 2 \<or> pz v = thickness / 2)
             \<and> ((px v)\<^sup>2 + (py v)\<^sup>2 = (diameter / 2)\<^sup>2 \<or> (px v = 0 \<and> py v = 0))"
  proof
    fix v assume "v \<in> set (vertices ?B)"
    then consider "v = (0, 0, - thickness / 2)" | "v = (0, 0, thickness / 2)"
      | "v \<in> set (ring (diameter / 2) (- thickness / 2) 120)"
      | "v \<in> set (ring (diameter / 2) (thickness / 2) 120)"
      unfolding base_cylinder_def vertices_cylinder by blast
    then show "(pz v = - thickness / 2 \<or> pz v = thickness / 2)
             \<and> ((px v)\<^sup>2 + (py v)\<^sup>2 = (diameter / 2)\<^sup>2 \<or> (px v = 0 \<and> py v = 0))"
    proof cases
      case 1 then show ?thesis by simp
    next
      case 2 then show ?thesis by simp
    next
      case 3 from ring_on_circle(1,2) [OF 3] show ?thesis by simp
    next
      case 4 from ring_on_circle(1,2) [OF 4] show ?thesis by simp
    qed
  qed
  have r: "\<forall>k < 120.
             (diameter / 2 * cos (2 * pi * real k / 120), diameter / 2 * sin (2 * pi * real k / 120),
              - thickness / 2) \<in> set (vertices ?B)
           \<and> (diameter / 2 * cos (2 * pi * real k / 120), diameter / 2 * sin (2 * pi * real k / 120),
              thickness / 2) \<in> set (vertices ?B)"
  proof (intro allI impI conjI)
    fix k :: nat assume k: "k < 120"
    from ring_120_member [OF k, of "diameter / 2" "- thickness / 2"]
    show "(diameter / 2 * cos (2 * pi * real k / 120), diameter / 2 * sin (2 * pi * real k / 120),
              - thickness / 2) \<in> set (vertices ?B)"
      unfolding base_cylinder_def vertices_cylinder by blast
    from ring_120_member [OF k, of "diameter / 2" "thickness / 2"]
    show "(diameter / 2 * cos (2 * pi * real k / 120), diameter / 2 * sin (2 * pi * real k / 120),
              thickness / 2) \<in> set (vertices ?B)"
      unfolding base_cylinder_def vertices_cylinder by blast
  qed
  have n: "length (vertices ?B) = 242" "length (faces ?B) = 480"
    unfolding base_cylinder_def by (simp_all add: cylinder_counts)
  have c: "vertices ?B ! 0 = (0, 0, - thickness / 2)" "vertices ?B ! 1 = (0, 0, thickness / 2)"
    unfolding base_cylinder_def by (simp_all add: cylinder_def)
  have f: "\<forall>k < 120.
             (0, 2 + k, 2 + (k + 1) mod 120) \<in> set (faces ?B)
           \<and> (1, 122 + k, 122 + (k + 1) mod 120) \<in> set (faces ?B)"
  proof (intro allI impI)
    fix k :: nat assume k: "k < 120"
    from cap_faces_member [OF k, of 0 2] cap_faces_member [OF k, of 1 122]
    show "(0, 2 + k, 2 + (k + 1) mod 120) \<in> set (faces ?B)
           \<and> (1, 122 + k, 122 + (k + 1) mod 120) \<in> set (faces ?B)"
      unfolding base_cylinder_def by (simp add: cylinder_def)
  qed
  have w: "written (generate E output_name diameter thickness logo_depth scale flip_horizontal
              top_rotate bottom_rotate svg_path svg_string) \<noteq> [] \<longrightarrow>
           snd (hd (written (generate E output_name diameter thickness logo_depth scale
              flip_horizontal top_rotate bottom_rotate svg_path svg_string)))
           = Finite_mesh (cylinder (diameter / 2) thickness 120)"
    using written_base [of E output_name diameter thickness logo_depth scale flip_horizontal
              top_rotate bottom_rotate svg_path svg_string]
    by (simp add: base_cylinder_def)
  from b v r n c f w show ?thesis by blast
qed

theorem base_is_capped_cylinder_witness:
  "(0 :: real) \<le> 100 \<and> (0 :: real) \<le> 5
   \<and> bounds (base_cylinder 100 5) = Some ((- 50, - 50, - 5 / 2), (50, 50, 5 / 2))
   \<and> length (vertices (base_cylinder 100 5)) = 242
   \<and> length (faces (base_cylinder 100 5)) = 480
   \<and> vertices (base_cylinder 100 5) ! 1 = (0, 0, 5 / 2)"
proof -
  have h: "(0 :: real) \<le> 100" "(0 :: real) \<le> 5" by simp_all
  from base_is_capped_cylinder [OF h]
  have "bounds (base_cylinder 100 5) = Some ((- 100 / 2, - 100 / 2, - 5 / 2), (100 / 2, 100 / 2, 5 / 2))
   \<and> length (vertices (base_cylinder 100 5)) = 242
   \<and> length (faces (base_cylinder 100 5)) = 480
   \<and> vertices (base_cylinder 100 5) ! 1 = (0, 0, 5 / 2)"
    by blast
  then show ?thesis by simp
qed

end
